theory Spec2Isabelle
  imports Complex_Main "HOL-Library.AList"
begin

section \<open>Paths\<close>

text \<open>
  The namespace code works on \<^verbatim>\<open>pathlib.Path\<close> values of the POSIX flavour. A path is
  modelled by its \<^verbatim>\<open>parts\<close> tuple: the root (\<^verbatim>\<open>/\<close>, or \<^verbatim>\<open>//\<close> when the text starts with
  exactly two slashes) followed by the components, none of which is empty or \<^verbatim>\<open>.\<close>.
  Strings are byte strings here; file names are taken to be ASCII.
\<close>

type_synonym path = "string list"

text \<open>\<^verbatim>\<open>str.split('/')\<close>.\<close>

fun split_sep :: "string \<Rightarrow> string list" where
  "split_sep [] = [[]]"
| "split_sep (c # cs) =
     (if c = CHR ''/'' then [] # split_sep cs
      else (case split_sep cs of [] \<Rightarrow> [[c]] | w # ws \<Rightarrow> (c # w) # ws))"

text \<open>\<^verbatim>\<open>posixpath.splitroot\<close> without the (always empty) drive: the root and the rest.\<close>

definition splitroot :: "string \<Rightarrow> string \<times> string" where
  "splitroot p =
     (if take 1 p \<noteq> ''/'' then ('''', p)
      else if take 1 (drop 1 p) \<noteq> ''/'' then (''/'', drop 1 p)
      else if take 1 (drop 2 p) = ''/'' then (''/'', drop 1 p)
      else (''//'', drop 2 p))"

text \<open>\<^verbatim>\<open>Path(s)\<close> for a string \<open>s\<close>.\<close>

definition Path :: "string \<Rightarrow> path" where
  "Path s =
     (case splitroot s of (rt, rel) \<Rightarrow>
        (let comps = filter (\<lambda>x. x \<noteq> '''' \<and> x \<noteq> ''.'') (split_sep rel)
         in if rt = '''' then comps else rt # comps))"

definition is_absolute :: "path \<Rightarrow> bool" where
  "is_absolute p = (case p of [] \<Rightarrow> False | r # ps \<Rightarrow> r = ''/'' \<or> r = ''//'')"

text \<open>\<^verbatim>\<open>'/'.join(xs)\<close>.\<close>

fun join_sep :: "string list \<Rightarrow> string" where
  "join_sep [] = []"
| "join_sep [x] = x"
| "join_sep (x # y # ys) = x @ ''/'' @ join_sep (y # ys)"

text \<open>\<^verbatim>\<open>str(p)\<close>, which for this flavour is also \<^verbatim>\<open>p.as_posix()\<close>.\<close>

definition path_str :: "path \<Rightarrow> string" where
  "path_str p =
     (case p of [] \<Rightarrow> ''.''
      | r # ps \<Rightarrow> if r = ''/'' \<or> r = ''//'' then r @ join_sep ps else join_sep (r # ps))"

text \<open>\<^verbatim>\<open>p.parent\<close>: a bare root is its own parent.\<close>

definition parent :: "path \<Rightarrow> path" where
  "parent p = (if length p = 1 \<and> is_absolute p then p else butlast p)"

text \<open>\<^verbatim>\<open>p.name\<close>: the last component, empty for a bare root and for the empty path.\<close>

definition path_name :: "path \<Rightarrow> string" where
  "path_name p = (if p = [] \<or> (length p = 1 \<and> is_absolute p) then '''' else last p)"

text \<open>\<^verbatim>\<open>Path.joinpath(p, s)\<close>: an absolute segment replaces what came before it.\<close>

definition joinpath :: "path \<Rightarrow> string \<Rightarrow> path" where
  "joinpath p s = (let q = Path s in if is_absolute q then q else p @ q)"

text \<open>\<^verbatim>\<open>Path(*segs)\<close>.\<close>

definition Path_of_parts :: "string list \<Rightarrow> path" where
  "Path_of_parts segs = foldl joinpath [] segs"

text \<open>
  What every \<^verbatim>\<open>Path\<close> value satisfies: after an optional root come components that are
  not empty, are not \<^verbatim>\<open>.\<close> and hold no slash.
\<close>

definition wf_component :: "string \<Rightarrow> bool" where
  "wf_component c = (c \<noteq> [] \<and> c \<noteq> ''.'' \<and> CHR ''/'' \<notin> set c)"

definition wf_path :: "path \<Rightarrow> bool" where
  "wf_path p =
     (case p of [] \<Rightarrow> True
      | r # cs \<Rightarrow> (r = ''/'' \<or> r = ''//'' \<or> wf_component r) \<and> list_all wf_component cs)"

section \<open>File entries\<close>

text \<open>
  \<^verbatim>\<open>hashlib.sha256(s.encode()).hexdigest()\<close> is kept symbolic: \<open>Sha256 s\<close> is the digest of
  the string \<open>s\<close>, and two digests are equal only when the strings are (the hash is taken
  to have no collisions).
\<close>

datatype digest = Sha256 string

text \<open>
  Class \<^verbatim>\<open>FileNode\<close>. The field \<^verbatim>\<open>size\<close> is called \<open>fsize\<close>. Time stamps are readings of
  \<^verbatim>\<open>time.time()\<close>; every operation below takes the reading \<open>now\<close> of the clock at the
  time it runs, and all the reads within one operation return that value.
\<close>

record file_node =
  name :: string
  file_path :: path
  file_id :: digest
  fsize :: int
  created_at :: real
  modified_at :: real

definition generate_file_id :: "file_node \<Rightarrow> digest" where
  "generate_file_id f = Sha256 (name f @ path_str (file_path f))"

text \<open>\<^verbatim>\<open>FileNode.__init__\<close>.\<close>

definition FileNode_init :: "string \<Rightarrow> path \<Rightarrow> real \<Rightarrow> file_node" where
  "FileNode_init nm p now =
     (let self = \<lparr>name = nm, file_path = p, file_id = Sha256 [], fsize = 0,
                  created_at = now, modified_at = now\<rparr>
      in self\<lparr>file_id := generate_file_id self\<rparr>)"

text \<open>\<^verbatim>\<open>FileNode.rename\<close>, statement by statement.\<close>

definition FileNode_rename :: "file_node \<Rightarrow> string \<Rightarrow> real \<Rightarrow> file_node" where
  "FileNode_rename self new_name now =
     (let s1 = self\<lparr>name := new_name\<rparr>;
          s2 = s1\<lparr>file_id := generate_file_id s1\<rparr>;
          s3 = s2\<lparr>file_path := joinpath (parent (file_path s2)) new_name\<rparr>
      in s3\<lparr>modified_at := now\<rparr>)"

text \<open>\<^verbatim>\<open>FileNode.move\<close>, statement by statement.\<close>

definition FileNode_move :: "file_node \<Rightarrow> path \<Rightarrow> real \<Rightarrow> file_node" where
  "FileNode_move self p now =
     (let s1 = self\<lparr>file_path := p\<rparr>;
          s2 = s1\<lparr>file_id := generate_file_id s1\<rparr>;
          s3 = s2\<lparr>file_path := joinpath (parent (file_path s2)) (path_name (file_path s2))\<rparr>
      in s3\<lparr>modified_at := now\<rparr>)"

text \<open>The invariant of the data model: the id is the digest of name and virtual path.\<close>

definition id_ok :: "file_node \<Rightarrow> bool" where
  "id_ok f = (file_id f = Sha256 (name f @ path_str (file_path f)))"

section \<open>Directory entries\<close>

text \<open>
  Class \<^verbatim>\<open>DirectoryNode\<close>. The \<^verbatim>\<open>children\<close> dictionary keeps insertion order, which the
  traversals below follow, so it is an association list: \<open>map_of\<close> looks a key up,
  \<open>AList.update\<close> is \<^verbatim>\<open>d[k] = v\<close> (in place for a key that is there, at the end for a new
  one) and \<open>AList.delete\<close> is \<^verbatim>\<open>del d[k]\<close>.
\<close>

datatype node = FileNode file_node | DirectoryNode directory_node
and directory_node = Directory (dname: string) (children: "(string \<times> node) list")

datatype error =
  FileExistsError | FileNotFoundError | EnvironmentError | ValueError
  | TypeError | KeyError | IndexError | AttributeError | AssertionError

text \<open>
  A method of \<^verbatim>\<open>DirectoryNode\<close> returns its result, or the exception it raised, together
  with the directory as the call left it.
\<close>

definition DirectoryNode_create_directory ::
    "directory_node \<Rightarrow> string \<Rightarrow> (error + directory_node) \<times> directory_node" where
  "DirectoryNode_create_directory self nm =
     (if map_of (children self) nm = None then
        (let new_dir = Directory nm []
         in (Inr new_dir,
             Directory (dname self) (AList.update nm (DirectoryNode new_dir) (children self))))
      else (Inl FileExistsError, self))"

definition DirectoryNode_create_file ::
    "directory_node \<Rightarrow> string \<Rightarrow> path \<Rightarrow> real \<Rightarrow> (error + file_node) \<times> directory_node" where
  "DirectoryNode_create_file self nm p now =
     (if map_of (children self) nm = None then
        (let new_file = FileNode_init nm p now
         in (Inr new_file,
             Directory (dname self) (AList.update nm (FileNode new_file) (children self))))
      else (Inl FileExistsError, self))"

text \<open>
  The entry handed to \<^verbatim>\<open>mutate_file\<close> may be \<^verbatim>\<open>None\<close>. The entry is stored by value: the
  caller is taken not to keep and change the object it handed over.
\<close>

definition DirectoryNode_mutate_file ::
    "directory_node \<Rightarrow> string \<Rightarrow> file_node option \<Rightarrow> real
      \<Rightarrow> (error + file_node) \<times> directory_node" where
  "DirectoryNode_mutate_file self nm file_node now =
     (case file_node of
        None \<Rightarrow> (Inl FileNotFoundError, self)
      | Some fnode \<Rightarrow>
          if nm = [] then (Inl FileNotFoundError, self)
          else if map_of (children self) nm = None then (Inl FileNotFoundError, self)
          else (let fnode' = fnode\<lparr>modified_at := now\<rparr>
                in (Inr fnode',
                    Directory (dname self) (AList.update nm (FileNode fnode') (children self)))))"

text \<open>\<^verbatim>\<open>_collect_file_ids\<close>: the loop over the children, recursing into subdirectories.\<close>

fun collect_file_ids :: "directory_node \<Rightarrow> digest list"
and collect_file_ids_node :: "node \<Rightarrow> digest list"
and collect_file_ids_loop :: "(string \<times> node) list \<Rightarrow> digest list" where
  "collect_file_ids (Directory nm cs) = collect_file_ids_loop cs"
| "collect_file_ids_node (FileNode f) = [file_id f]"
| "collect_file_ids_node (DirectoryNode d) = collect_file_ids d"
| "collect_file_ids_loop [] = []"
| "collect_file_ids_loop ((k, child) # cs) = collect_file_ids_node child @ collect_file_ids_loop cs"

definition DirectoryNode_delete_directory ::
    "directory_node \<Rightarrow> string \<Rightarrow> bool \<Rightarrow> (error + digest list) \<times> directory_node" where
  "DirectoryNode_delete_directory self nm recursive =
     (case map_of (children self) nm of
        Some (DirectoryNode d) \<Rightarrow>
          if length (children d) = 0 then
            (Inr [], Directory (dname self) (AList.delete nm (children self)))
          else if recursive then (Inr (collect_file_ids d), self)
          else (Inl EnvironmentError, self)
      | _ \<Rightarrow> (Inl FileNotFoundError, self))"

definition DirectoryNode_delete_file ::
    "directory_node \<Rightarrow> string \<Rightarrow> (error + file_node) \<times> directory_node" where
  "DirectoryNode_delete_file self nm =
     (case map_of (children self) nm of
        Some (FileNode f) \<Rightarrow> (Inr f, Directory (dname self) (AList.delete nm (children self)))
      | _ \<Rightarrow> (Inl FileNotFoundError, self))"

text \<open>
  \<^verbatim>\<open>_rename_directory_helper\<close>: its loop over the children of the renamed directory. A file
  gets \<^verbatim>\<open>parts[-(2 + depth)]\<close> of its path replaced, which raises \<^verbatim>\<open>IndexError\<close> on a
  shorter path; the new id is computed for the returned pair and the entry keeps its
  \<^verbatim>\<open>file_id\<close>. For a subdirectory the code calls \<^verbatim>\<open>self._collect_file_ids(new_name, child,
  depth + 1)\<close>, three arguments to a method of one, which raises \<^verbatim>\<open>TypeError\<close>. The children
  handled before an exception stay rewritten.
\<close>

fun rename_directory_helper_loop ::
    "string \<Rightarrow> nat \<Rightarrow> (string \<times> node) list
      \<Rightarrow> (error + (digest \<times> digest) list) \<times> (string \<times> node) list" where
  "rename_directory_helper_loop new_name depth [] = (Inr [], [])"
| "rename_directory_helper_loop new_name depth ((k, FileNode child) # cs) =
     (let parts = file_path child in
      if length parts < 2 + depth then (Inl IndexError, (k, FileNode child) # cs)
      else
        (let child' = child\<lparr>file_path :=
                         Path_of_parts (parts[length parts - (2 + depth) := new_name])\<rparr>;
             old_id = file_id child';
             new_id = generate_file_id child'
         in (case rename_directory_helper_loop new_name depth cs of
               (Inl e, cs') \<Rightarrow> (Inl e, (k, FileNode child') # cs')
             | (Inr ids, cs') \<Rightarrow> (Inr ((old_id, new_id) # ids), (k, FileNode child') # cs'))))"
| "rename_directory_helper_loop new_name depth ((k, DirectoryNode child) # cs) =
     (Inl TypeError, (k, DirectoryNode child) # cs)"

definition rename_directory_helper ::
    "string \<Rightarrow> directory_node \<Rightarrow> nat \<Rightarrow> (error + (digest \<times> digest) list) \<times> directory_node" where
  "rename_directory_helper new_name nd depth =
     (case rename_directory_helper_loop new_name depth (children nd) of
        (r, cs') \<Rightarrow> (r, Directory (dname nd) cs'))"

definition DirectoryNode_rename_directory ::
    "directory_node \<Rightarrow> string \<Rightarrow> string
      \<Rightarrow> (error + (digest \<times> digest) list) \<times> directory_node" where
  "DirectoryNode_rename_directory self old_name new_name =
     (case map_of (children self) old_name of
        Some (DirectoryNode d) \<Rightarrow>
          (let d1 = Directory new_name (children d);
               cs1 = AList.update new_name (DirectoryNode d1) (AList.delete old_name (children self))
           in (case rename_directory_helper new_name d1 0 of
                 (r, d2) \<Rightarrow>
                   (r, Directory (dname self) (AList.update new_name (DirectoryNode d2) cs1))))
      | _ \<Rightarrow> (Inl FileNotFoundError, self))"

text \<open>
  \<^verbatim>\<open>rename_file\<close>: the entry is renamed in place, stored under the new key, the old key is
  deleted, and the entry under the new key is returned (\<^verbatim>\<open>KeyError\<close> when it is gone).
\<close>

definition DirectoryNode_rename_file ::
    "directory_node \<Rightarrow> string \<Rightarrow> string \<Rightarrow> real \<Rightarrow> (error + file_node) \<times> directory_node" where
  "DirectoryNode_rename_file self old_name new_name now =
     (case map_of (children self) old_name of
        Some (FileNode f) \<Rightarrow>
          (let f' = FileNode_rename f new_name now;
               cs1 = AList.update old_name (FileNode f') (children self);
               cs2 = AList.update new_name (FileNode f') cs1;
               cs3 = AList.delete old_name cs2
           in (case map_of cs3 new_name of
                 None \<Rightarrow> (Inl KeyError, Directory (dname self) cs3)
               | Some _ \<Rightarrow> (Inr f', Directory (dname self) cs3)))
      | _ \<Rightarrow> (Inl FileNotFoundError, self))"

text \<open>
  \<^verbatim>\<open>get_file\<close>: the loop over \<^verbatim>\<open>path[1:]\<close> stops at the first part that names a file, then
  \<^verbatim>\<open>path[-1]\<close> is looked up in the directory reached.
\<close>

fun get_file_loop :: "directory_node \<Rightarrow> string list \<Rightarrow> error + directory_node" where
  "get_file_loop current_dir [] = Inr current_dir"
| "get_file_loop current_dir (part # ps) =
     (case map_of (children current_dir) part of
        Some (FileNode f) \<Rightarrow> Inr current_dir
      | Some (DirectoryNode d) \<Rightarrow> get_file_loop d ps
      | None \<Rightarrow> Inl FileNotFoundError)"

definition DirectoryNode_get_file :: "directory_node \<Rightarrow> string list \<Rightarrow> error + file_node" where
  "DirectoryNode_get_file self p =
     (case get_file_loop self (drop 1 p) of
        Inl e \<Rightarrow> Inl e
      | Inr current_dir \<Rightarrow>
          if p = [] then Inl IndexError
          else (case map_of (children current_dir) (last p) of
                  Some (FileNode f) \<Rightarrow> Inr f
                | _ \<Rightarrow> Inl FileNotFoundError))"

section \<open>The store\<close>

text \<open>
  Class \<^verbatim>\<open>FileSystem\<close>: the tree below \<^verbatim>\<open>self.root\<close> and the blobs in the data folder, one
  file per id, as a map from ids to contents. Contents are ASCII, so the number of
  characters written is the number of bytes. The methods
  run one at a time (each takes \<^verbatim>\<open>self.lock\<close>), so a method is a function from the store to
  its result, or the exception it raised, and the store it left.
\<close>

record fs =
  root :: directory_node
  disk :: "digest \<rightharpoonup> string"

text \<open>\<^verbatim>\<open>_validate_and_split_path\<close>.\<close>

definition validate_and_split_path :: "string \<Rightarrow> error + string list" where
  "validate_and_split_path p =
     (let q = Path p
      in if \<not> is_absolute q then Inl ValueError else Inr (filter (\<lambda>part. part \<noteq> []) q))"

text \<open>
  The variable \<^verbatim>\<open>current_dir\<close> refers to a directory object inside the tree. The tree has
  no sharing, so the reference is the list of child keys that leads from the root to the
  directory, paired with the directory as it was read there.
\<close>

type_synonym dir_ref = "string list \<times> directory_node"

text \<open>\<^verbatim>\<open>_traverse_directory\<close>: a part equal to the name of the current directory stays in it.\<close>

definition traverse_directory :: "dir_ref \<Rightarrow> string \<Rightarrow> error + dir_ref" where
  "traverse_directory current_dir part =
     (case current_dir of (loc, d) \<Rightarrow>
        if dname d = part then Inr (loc, d)
        else (case map_of (children d) part of
                Some (DirectoryNode c) \<Rightarrow> Inr (loc @ [part], c)
              | _ \<Rightarrow> Inl FileNotFoundError))"

text \<open>\<^verbatim>\<open>for part in parts: current_dir = self._traverse_directory(current_dir, part)\<close>.\<close>

fun traverse_loop :: "dir_ref \<Rightarrow> string list \<Rightarrow> error + dir_ref" where
  "traverse_loop current_dir [] = Inr current_dir"
| "traverse_loop current_dir (part # ps) =
     (case traverse_directory current_dir part of
        Inl e \<Rightarrow> Inl e
      | Inr current_dir' \<Rightarrow> traverse_loop current_dir' ps)"

text \<open>Reading the directory at a location, and the tree after the directory there changed.\<close>

fun get_dir :: "directory_node \<Rightarrow> string list \<Rightarrow> directory_node option" where
  "get_dir r [] = Some r"
| "get_dir r (k # ks) =
     (case map_of (children r) k of Some (DirectoryNode c) \<Rightarrow> get_dir c ks | _ \<Rightarrow> None)"

fun put_dir :: "directory_node \<Rightarrow> string list \<Rightarrow> directory_node \<Rightarrow> directory_node" where
  "put_dir r [] d = d"
| "put_dir r (k # ks) d =
     (case map_of (children r) k of
        Some (DirectoryNode c) \<Rightarrow>
          Directory (dname r) (AList.update k (DirectoryNode (put_dir c ks d)) (children r))
      | _ \<Rightarrow> r)"

definition store_dir :: "fs \<Rightarrow> string list \<Rightarrow> directory_node \<Rightarrow> fs" where
  "store_dir s loc d = s\<lparr>root := put_dir (root s) loc d\<rparr>"

text \<open>\<^verbatim>\<open>FileSystem.create_directory\<close>; the result refers to the new directory.\<close>

definition FileSystem_create_directory :: "fs \<Rightarrow> string \<Rightarrow> (error + dir_ref) \<times> fs" where
  "FileSystem_create_directory s p =
     (case validate_and_split_path p of
        Inl e \<Rightarrow> (Inl e, s)
      | Inr parts \<Rightarrow>
          (case traverse_loop ([], root s) (butlast parts) of
             Inl e \<Rightarrow> (Inl e, s)
           | Inr (loc, d) \<Rightarrow>
               (case DirectoryNode_create_directory d (last parts) of
                  (Inl e, d') \<Rightarrow> (Inl e, store_dir s loc d')
                | (Inr new_dir, d') \<Rightarrow> (Inr (loc @ [last parts], new_dir), store_dir s loc d'))))"

text \<open>
  \<^verbatim>\<open>FileSystem.create_file\<close>: the entry is created in the tree, the content is written to
  the blob named by its id, and the entry's size is set to the number of characters written.
  This write of the first content is taken to succeed.
\<close>

definition FileSystem_create_file ::
    "fs \<Rightarrow> string \<Rightarrow> string \<Rightarrow> real \<Rightarrow> (error + file_node) \<times> fs" where
  "FileSystem_create_file s p content now =
     (case validate_and_split_path p of
        Inl e \<Rightarrow> (Inl e, s)
      | Inr parts \<Rightarrow>
          (case traverse_loop ([], root s) (butlast (drop 1 parts)) of
             Inl e \<Rightarrow> (Inl e, s)
           | Inr (loc, d) \<Rightarrow>
               (case DirectoryNode_create_file d (last parts) (Path p) now of
                  (Inl e, d') \<Rightarrow> (Inl e, store_dir s loc d')
                | (Inr new_file, d') \<Rightarrow>
                    (let new_file' = new_file\<lparr>fsize := int (length content)\<rparr>;
                         d'' = Directory (dname d')
                                 (AList.update (last parts) (FileNode new_file') (children d'))
                     in (Inr new_file',
                         (store_dir s loc d'')\<lparr>disk := (disk s)(file_id new_file \<mapsto> content)\<rparr>)))))"

text \<open>
  \<^verbatim>\<open>FileSystem.open\<close>. Its loop over \<^verbatim>\<open>parts[1:-1]\<close> traverses, and on
  \<^verbatim>\<open>FileNotFoundError\<close> creates the directory named by the text \<^verbatim>\<open>t_path\<close> built so far.
\<close>

fun open_loop :: "fs \<Rightarrow> dir_ref \<Rightarrow> string \<Rightarrow> string list \<Rightarrow> (error + dir_ref) \<times> fs" where
  "open_loop s current_dir t_path [] = (Inr current_dir, s)"
| "open_loop s current_dir t_path (part # ps) =
     (let t_path' = t_path @ ''/'' @ part in
      case traverse_directory current_dir part of
        Inr current_dir' \<Rightarrow> open_loop s current_dir' t_path' ps
      | Inl e \<Rightarrow>
          (case FileSystem_create_directory s (path_str (Path t_path')) of
             (Inl e', s') \<Rightarrow> (Inl e', s')
           | (Inr current_dir', s') \<Rightarrow> open_loop s' current_dir' t_path' ps))"

text \<open>
  The end of \<^verbatim>\<open>open\<close>: when an entry was passed in, it replaces the one found or created,
  through \<^verbatim>\<open>current_dir.mutate_file\<close>. The directory is read again at its location, since
  \<^verbatim>\<open>create_file\<close> may have changed it in between.
\<close>

definition open_finish ::
    "fs \<Rightarrow> dir_ref \<Rightarrow> string \<Rightarrow> node \<Rightarrow> file_node option \<Rightarrow> real \<Rightarrow> (error + node) \<times> fs" where
  "open_finish s current_dir nm file_to_open file_node now =
     (case file_node of
        None \<Rightarrow> (Inr file_to_open, s)
      | Some fnode \<Rightarrow>
          (case current_dir of (loc, d) \<Rightarrow>
             (let cur = (case get_dir (root s) loc of Some d' \<Rightarrow> d' | None \<Rightarrow> d) in
              case DirectoryNode_mutate_file cur nm (Some fnode) now of
                (Inl e, cur') \<Rightarrow> (Inl e, store_dir s loc cur')
              | (Inr f', cur') \<Rightarrow> (Inr (FileNode f'), store_dir s loc cur'))))"

definition FileSystem_open ::
    "fs \<Rightarrow> string \<Rightarrow> file_node option \<Rightarrow> real \<Rightarrow> (error + node) \<times> fs" where
  "FileSystem_open s p file_node now =
     (case validate_and_split_path p of
        Inl e \<Rightarrow> (Inl e, s)
      | Inr parts \<Rightarrow>
          (case open_loop s ([], root s) [] (butlast (drop 1 parts)) of
             (Inl e, s1) \<Rightarrow> (Inl e, s1)
           | (Inr current_dir, s1) \<Rightarrow>
               (case map_of (children (snd current_dir)) (last parts) of
                  Some file_to_open \<Rightarrow>
                    open_finish s1 current_dir (last parts) file_to_open file_node now
                | None \<Rightarrow>
                    (case FileSystem_create_file s1 p [] now of
                       (Inl e, s2) \<Rightarrow> (Inl e, s2)
                     | (Inr new_file, s2) \<Rightarrow>
                         open_finish s2 current_dir (last parts) (FileNode new_file)
                           file_node now))))"

definition FileSystem_delete :: "fs \<Rightarrow> string \<Rightarrow> (error + file_node) \<times> fs" where
  "FileSystem_delete s p =
     (case validate_and_split_path p of
        Inl e \<Rightarrow> (Inl e, s)
      | Inr parts \<Rightarrow>
          (case traverse_loop ([], root s) (butlast (drop 1 parts)) of
             Inl e \<Rightarrow> (Inl e, s)
           | Inr (loc, d) \<Rightarrow>
               (case map_of (children d) (last parts) of
                  Some (FileNode file_to_delete) \<Rightarrow>
                    (let s1 = s\<lparr>disk := (disk s)(file_id file_to_delete := None)\<rparr>
                     in case DirectoryNode_delete_file d (last parts) of
                          (r, d') \<Rightarrow> (r, store_dir s1 loc d'))
                | _ \<Rightarrow> (Inl FileNotFoundError, s))))"

definition FileSystem_mutate :: "fs \<Rightarrow> string \<Rightarrow> file_node \<Rightarrow> real \<Rightarrow> (error + file_node) \<times> fs" where
  "FileSystem_mutate s p new_file_node now =
     (case validate_and_split_path p of
        Inl e \<Rightarrow> (Inl e, s)
      | Inr parts \<Rightarrow>
          (case traverse_loop ([], root s) (butlast (drop 1 parts)) of
             Inl e \<Rightarrow> (Inl e, s)
           | Inr (loc, d) \<Rightarrow>
               (case map_of (children d) (last parts) of
                  Some (FileNode file_to_mutate) \<Rightarrow>
                    (let new_file_node' = new_file_node\<lparr>modified_at := now\<rparr>
                     in case DirectoryNode_mutate_file d (last parts) (Some new_file_node') now of
                          (Inl e, d') \<Rightarrow> (Inl e, store_dir s loc d')
                        | (Inr f, d') \<Rightarrow> (Inr f, store_dir s loc d'))
                | _ \<Rightarrow> (Inl FileNotFoundError, s))))"

text \<open>
  \<^verbatim>\<open>FileSystem.delete_directory\<close> has no \<^verbatim>\<open>recursive\<close> parameter. It counts the loop's
  rounds in \<^verbatim>\<open>i\<close>, reads \<^verbatim>\<open>current_dir.children[parts[-1]].children\<close> (\<^verbatim>\<open>KeyError\<close> for a
  missing name, \<^verbatim>\<open>AttributeError\<close> for a file) and refuses a directory that has children.
\<close>

definition FileSystem_delete_directory :: "fs \<Rightarrow> string \<Rightarrow> (error + unit) \<times> fs" where
  "FileSystem_delete_directory s p =
     (case validate_and_split_path p of
        Inl e \<Rightarrow> (Inl e, s)
      | Inr parts \<Rightarrow>
          (case traverse_loop ([], root s) (butlast (drop 1 parts)) of
             Inl e \<Rightarrow> (Inl e, s)
           | Inr (loc, d) \<Rightarrow>
               (let i = int (length (butlast (drop 1 parts))) in
                if i < int (length (butlast parts)) - 1 then (Inl FileNotFoundError, s)
                else (case map_of (children d) (last parts) of
                        None \<Rightarrow> (Inl KeyError, s)
                      | Some (FileNode f) \<Rightarrow> (Inl AttributeError, s)
                      | Some (DirectoryNode c) \<Rightarrow>
                          if \<not> (length (children c) = 0) then (Inl EnvironmentError, s)
                          else (case DirectoryNode_delete_directory d (last parts) False of
                                  (Inl e, d') \<Rightarrow> (Inl e, store_dir s loc d')
                                | (Inr ids, d') \<Rightarrow> (Inr (), store_dir s loc d'))))))"

definition FileSystem_delete_file :: "fs \<Rightarrow> string \<Rightarrow> (error + unit) \<times> fs" where
  "FileSystem_delete_file s p =
     (case validate_and_split_path p of
        Inl e \<Rightarrow> (Inl e, s)
      | Inr parts \<Rightarrow>
          (case traverse_loop ([], root s) (butlast parts) of
             Inl e \<Rightarrow> (Inl e, s)
           | Inr (loc, d) \<Rightarrow>
               (case map_of (children d) (last parts) of
                  Some (FileNode file_to_delete) \<Rightarrow>
                    (let s1 = s\<lparr>disk := (disk s)(file_id file_to_delete := None)\<rparr>
                     in case DirectoryNode_delete_file d (last parts) of
                          (Inl e, d') \<Rightarrow> (Inl e, store_dir s1 loc d')
                        | (Inr f, d') \<Rightarrow> (Inr (), store_dir s1 loc d'))
                | _ \<Rightarrow> (Inl FileNotFoundError, s))))"

text \<open>\<^verbatim>\<open>FileSystem.rename_directory\<close> drops the pairs that the tree operation returns.\<close>

definition FileSystem_rename_directory :: "fs \<Rightarrow> string \<Rightarrow> string \<Rightarrow> (error + unit) \<times> fs" where
  "FileSystem_rename_directory s old_path new_name =
     (case validate_and_split_path old_path of
        Inl e \<Rightarrow> (Inl e, s)
      | Inr parts \<Rightarrow>
          (case traverse_loop ([], root s) (butlast parts) of
             Inl e \<Rightarrow> (Inl e, s)
           | Inr (loc, d) \<Rightarrow>
               (case DirectoryNode_rename_directory d (last parts) new_name of
                  (Inl e, d') \<Rightarrow> (Inl e, store_dir s loc d')
                | (Inr ids, d') \<Rightarrow> (Inr (), store_dir s loc d'))))"

text \<open>
  \<^verbatim>\<open>FileSystem.rename_file\<close>: after the tree operation, \<^verbatim>\<open>os.rename\<close> moves the blob from the
  old id to the new one, and raises \<^verbatim>\<open>FileNotFoundError\<close> when there is no blob to move.
\<close>

definition FileSystem_rename_file ::
    "fs \<Rightarrow> string \<Rightarrow> string \<Rightarrow> real \<Rightarrow> (error + unit) \<times> fs" where
  "FileSystem_rename_file s old_path new_name now =
     (case validate_and_split_path old_path of
        Inl e \<Rightarrow> (Inl e, s)
      | Inr parts \<Rightarrow>
          (case traverse_loop ([], root s) (butlast parts) of
             Inl e \<Rightarrow> (Inl e, s)
           | Inr (loc, d) \<Rightarrow>
               (case DirectoryNode_get_file d (drop 1 parts) of
                  Inl e \<Rightarrow> (Inl e, s)
                | Inr old_file \<Rightarrow>
                    (let old_id = file_id old_file in
                     case DirectoryNode_rename_file d (last parts) new_name now of
                       (Inl e, d') \<Rightarrow> (Inl e, store_dir s loc d')
                     | (Inr file, d') \<Rightarrow>
                         (case disk s old_id of
                            None \<Rightarrow> (Inl FileNotFoundError, store_dir s loc d')
                          | Some blob \<Rightarrow>
                              (Inr (),
                               (store_dir s loc d')
                                 \<lparr>disk := ((disk s)(old_id := None))(file_id file \<mapsto> blob)\<rparr>))))))"

definition FileSystem_get_file_node :: "fs \<Rightarrow> string \<Rightarrow> (error + file_node) \<times> fs" where
  "FileSystem_get_file_node s abs_path =
     (case validate_and_split_path abs_path of
        Inl e \<Rightarrow> (Inl e, s)
      | Inr parts \<Rightarrow> (DirectoryNode_get_file (root s) parts, s))"

definition FileSystem_get_file :: "fs \<Rightarrow> string \<Rightarrow> (error + string) \<times> fs" where
  "FileSystem_get_file s abs_path =
     (case validate_and_split_path abs_path of
        Inl e \<Rightarrow> (Inl e, s)
      | Inr parts \<Rightarrow>
          (case DirectoryNode_get_file (root s) parts of
             Inl e \<Rightarrow> (Inl e, s)
           | Inr file_node \<Rightarrow>
               (case disk s (file_id file_node) of
                  None \<Rightarrow> (Inl FileNotFoundError, s)
                | Some blob \<Rightarrow> (Inr blob, s))))"

text \<open>
  What the host does when \<^verbatim>\<open>save_file\<close> opens the blob with mode \<^verbatim>\<open>'wb'\<close> and writes the data:
  the write goes through; or \<^verbatim>\<open>open\<close> raises and the blob is as before; or \<^verbatim>\<open>open\<close> has
  truncated the blob and the write or the flush raises when only the first \<open>k\<close> bytes have
  reached it. The code raises \<^verbatim>\<open>IOError\<close> again for both failures, which in Python 3 is the
  class \<^verbatim>\<open>OSError\<close>, the \<open>EnvironmentError\<close> of this theory.
\<close>

datatype blob_write = Written | OpenFailed | WriteFailed nat

definition FileSystem_save_file ::
    "fs \<Rightarrow> string \<Rightarrow> string \<Rightarrow> blob_write \<Rightarrow> (error + int) \<times> fs" where
  "FileSystem_save_file s abs_path data io =
     (case validate_and_split_path abs_path of
        Inl e \<Rightarrow> (Inl e, s)
      | Inr parts \<Rightarrow>
          (case DirectoryNode_get_file (root s) parts of
             Inl e \<Rightarrow> (Inl e, s)
           | Inr file_node \<Rightarrow>
               (case io of
                  Written \<Rightarrow>
                    (Inr (int (length data)),
                     s\<lparr>disk := (disk s)(file_id file_node \<mapsto> data)\<rparr>)
                | OpenFailed \<Rightarrow> (Inl EnvironmentError, s)
                | WriteFailed k \<Rightarrow>
                    (Inl EnvironmentError,
                     s\<lparr>disk := (disk s)(file_id file_node \<mapsto> take k data)\<rparr>))))"

section \<open>Snapshots\<close>

text \<open>
  The document that \<^verbatim>\<open>save\<close> writes with \<^verbatim>\<open>json.dump\<close> and \<^verbatim>\<open>load\<close> reads back: a directory
  carries its name and the documents of its children, a file carries \<^verbatim>\<open>name\<close>, \<^verbatim>\<open>size\<close>,
  \<^verbatim>\<open>file_path\<close>, \<^verbatim>\<open>file_id\<close>, \<^verbatim>\<open>created_at\<close> and \<^verbatim>\<open>modified_at\<close>. The snapshot file is
  modelled by the document in it.
\<close>

datatype snapshot =
  FileDoc string int string digest real real
  | DirectoryDoc string "(string \<times> snapshot) list"

fun serialize :: "node \<Rightarrow> snapshot"
and serialize_children :: "(string \<times> node) list \<Rightarrow> (string \<times> snapshot) list" where
  "serialize (DirectoryNode (Directory nm cs)) = DirectoryDoc nm (serialize_children cs)"
| "serialize (FileNode f) =
     FileDoc (name f) (fsize f) (path_str (file_path f)) (file_id f)
       (created_at f) (modified_at f)"
| "serialize_children [] = []"
| "serialize_children ((k, v) # cs) = (k, serialize v) # serialize_children cs"

text \<open>
  \<^verbatim>\<open>_deserialize\<close> builds a directory with \<^verbatim>\<open>DirectoryNode(name)\<close> and fills its children in
  the document's order; it builds a file with \<^verbatim>\<open>FileNode(data['name'],
  Path(data['file_path']))\<close>, the constructor of a new entry.
\<close>

fun deserialize :: "real \<Rightarrow> snapshot \<Rightarrow> node"
and deserialize_children ::
      "real \<Rightarrow> (string \<times> node) list \<Rightarrow> (string \<times> snapshot) list \<Rightarrow> (string \<times> node) list" where
  "deserialize now (DirectoryDoc nm cs) =
     DirectoryNode (Directory nm (deserialize_children now [] cs))"
| "deserialize now (FileDoc nm sz p i c m) = FileNode (FileNode_init nm (Path p) now)"
| "deserialize_children now acc [] = acc"
| "deserialize_children now acc ((child_name, child_data) # cs) =
     deserialize_children now (AList.update child_name (deserialize now child_data) acc) cs"

definition FileSystem_save :: "fs \<Rightarrow> snapshot" where
  "FileSystem_save s = serialize (DirectoryNode (root s))"

text \<open>
  \<^verbatim>\<open>load\<close> stores what \<^verbatim>\<open>_deserialize\<close> returns in \<^verbatim>\<open>self.root\<close>. The document of a snapshot
  written by \<^verbatim>\<open>save\<close> is a directory document; for a file document the root is left as it
  is here.
\<close>

definition FileSystem_load :: "fs \<Rightarrow> snapshot \<Rightarrow> real \<Rightarrow> fs" where
  "FileSystem_load s doc now =
     (case deserialize now doc of DirectoryNode d \<Rightarrow> s\<lparr>root := d\<rparr> | FileNode f \<Rightarrow> s)"

section \<open>Closing a session\<close>

text \<open>
  The messages of \<^verbatim>\<open>packet.py\<close>. A response is the first message the server sends back on
  the connection, which is the one \<^verbatim>\<open>websocket_comm\<close> returns: a JSON envelope with \<^verbatim>\<open>OK\<close>
  and the entry, or the plain text \<^verbatim>\<open>Error: ...\<close> of the handler's outer \<^verbatim>\<open>except\<close>.
\<close>

datatype request =
  OpenRequest string
  | CloseRequest file_node
  | ReadRequest file_node
  | WriteRequest file_node string

datatype response =
  Envelope (OK: bool) (resp_file_node: "file_node option")
  | ErrorText

text \<open>
  The \<^verbatim>\<open>write\<close> branch of \<^verbatim>\<open>NFSServer.handle_nfs\<close>: \<^verbatim>\<open>save_file\<close>, then the assertion that the
  number of bytes written is the entry's size.
\<close>

definition handle_nfs_write ::
    "fs \<Rightarrow> file_node \<Rightarrow> string \<Rightarrow> blob_write \<Rightarrow> response \<times> fs" where
  "handle_nfs_write s file_node data io =
     (case FileSystem_save_file s (path_str (file_path file_node)) data io of
        (Inl e, s') \<Rightarrow> (Envelope False None, s')
      | (Inr bytes_written, s') \<Rightarrow>
          if bytes_written = fsize file_node then (Envelope True (Some file_node), s')
          else (ErrorText, s'))"

text \<open>The \<^verbatim>\<open>close\<close> branch: \<^verbatim>\<open>mutate\<close> with the entry of the request.\<close>

definition handle_nfs_close :: "fs \<Rightarrow> file_node \<Rightarrow> real \<Rightarrow> response \<times> fs" where
  "handle_nfs_close s file_node now =
     (case FileSystem_mutate s (path_str (file_path file_node)) file_node now of
        (Inl e, s') \<Rightarrow> (Envelope False None, s')
      | (Inr file_node', s') \<Rightarrow> (Envelope True (Some file_node'), s'))"

text \<open>
  The state of \<^verbatim>\<open>NFSClient\<close> that \<^verbatim>\<open>handle_close\<close> uses: the entry of the open file, the path
  of the lock it holds, and the bytes of the scratch file.
\<close>

record client =
  current_file_node :: "file_node option"
  current_zk_lock :: "string option"
  temp_file :: "string option"

definition has_file_open :: "client \<Rightarrow> bool" where
  "has_file_open c =
     (\<not> (current_file_node c = None \<or> current_zk_lock c = None \<or> temp_file c = None))"

text \<open>\<^verbatim>\<open>NFSClient.unlock\<close>, with \<^verbatim>\<open>zk_unlock\<close> releasing the lock.\<close>

definition unlock :: "client \<Rightarrow> bool \<times> client" where
  "unlock c =
     (if \<not> has_file_open c then (False, c\<lparr>current_file_node := None, current_zk_lock := None\<rparr>)
      else (True, c\<lparr>current_file_node := None, current_zk_lock := None\<rparr>))"

text \<open>
  \<^verbatim>\<open>NFSClient.handle_close\<close> for the command \<^verbatim>\<open>close\<close> without arguments, against a server
  with store \<open>s\<close>; each request goes through \<^verbatim>\<open>websocket_comm\<close>, which returns the server's
  first response; \<open>io\<close> is what the host does with the server's write of the blob. The
  result is the exception that left the handler, if any, the requests
  sent in order, and the client and the store afterwards. A response that is plain text
  makes \<^verbatim>\<open>json.loads\<close> raise a \<^verbatim>\<open>ValueError\<close>.
\<close>

definition handle_close ::
    "client \<Rightarrow> fs \<Rightarrow> real \<Rightarrow> blob_write
      \<Rightarrow> (error + unit) \<times> request list \<times> client \<times> fs" where
  "handle_close c s now io =
     (let temp_file_node = current_file_node c in
      case unlock c of
        (False, c1) \<Rightarrow> (Inr (), [], c1, s)
      | (True, c1) \<Rightarrow>
          (case (temp_file_node, temp_file c1) of
             (Some node, Some data) \<Rightarrow>
               if fsize node \<noteq> int (length data) then (Inl AssertionError, [], c1, s)
               else
                 (case handle_nfs_write s node data io of
                    (ErrorText, s1) \<Rightarrow> (Inl ValueError, [WriteRequest node data], c1, s1)
                  | (Envelope ok1 n1, s1) \<Rightarrow>
                      if \<not> ok1 then (Inr (), [WriteRequest node data], c1, s1)
                      else
                        (case handle_nfs_close s1 node now of
                           (ErrorText, s2) \<Rightarrow>
                             (Inl ValueError, [WriteRequest node data, CloseRequest node], c1, s2)
                         | (Envelope ok2 n2, s2) \<Rightarrow>
                             if \<not> ok2 then
                               (Inr (), [WriteRequest node data, CloseRequest node], c1, s2)
                             else
                               (Inr (), [WriteRequest node data, CloseRequest node],
                                c1\<lparr>temp_file := None\<rparr>, s2)))
           | _ \<Rightarrow> (Inl AttributeError, [], c1, s)))"

section \<open>Example stores\<close>

text \<open>
  \<^verbatim>\<open>FileSystem.__init__\<close>: an empty root directory of the given name (\<^verbatim>\<open>/\<close> by default) over
  the blobs that the data folder holds.
\<close>

definition FileSystem_init :: "string \<Rightarrow> (digest \<rightharpoonup> string) \<Rightarrow> fs" where
  "FileSystem_init root_name blobs = \<lparr>root = Directory root_name [], disk = blobs\<rparr>"

text \<open>A new store with an empty data folder.\<close>

definition empty_store :: fs where
  "empty_store = FileSystem_init ''/'' Map.empty"

text \<open>
  The store of the specification's examples and of the repository's tests: directory
  \<^verbatim>\<open>/dir1\<close> with the file \<^verbatim>\<open>file1.txt\<close> of content \<^verbatim>\<open>X\<close>, created at time 1.
\<close>

definition dir1_store :: fs where
  "dir1_store =
     snd (FileSystem_create_file (snd (FileSystem_create_directory empty_store ''/dir1''))
            ''/dir1/file1.txt'' ''X'' 1)"

text \<open>The same store with a subdirectory \<^verbatim>\<open>/dir1/sub\<close> that holds \<^verbatim>\<open>file2.txt\<close>.\<close>

definition nested_store :: fs where
  "nested_store =
     snd (FileSystem_create_file (snd (FileSystem_create_directory dir1_store ''/dir1/sub''))
            ''/dir1/sub/file2.txt'' ''Y'' 2)"

text \<open>The first store after \<^verbatim>\<open>rename_file('/dir1/file1.txt', 'file3.txt')\<close> at time 2.\<close>

definition renamed_store :: fs where
  "renamed_store = snd (FileSystem_rename_file dir1_store ''/dir1/file1.txt'' ''file3.txt'' 2)"

text \<open>
  A client that has \<^verbatim>\<open>/dir1/file1.txt\<close> of the first store open and has appended \<^verbatim>\<open>Y\<close> to
  its scratch file: the entry it holds has size 2.
\<close>

definition edited_node :: file_node where
  "edited_node =
     \<lparr>name = ''file1.txt'', file_path = [''/'', ''dir1'', ''file1.txt''],
      file_id = Sha256 ''file1.txt/dir1/file1.txt'', fsize = 2,
      created_at = 1, modified_at = 1\<rparr>"

definition editing_client :: client where
  "editing_client =
     \<lparr>current_file_node = Some edited_node, current_zk_lock = Some ''/dir1/file1.txt'',
      temp_file = Some ''XY''\<rparr>"

text \<open>
  A store in which the directory \<^verbatim>\<open>/x\<close> holds a directory of its own name: \<^verbatim>\<open>/a/x/y/f.txt\<close> is
  created and \<^verbatim>\<open>/a\<close> is renamed to \<^verbatim>\<open>x\<close>. The rename raises \<^verbatim>\<open>TypeError\<close> at the subdirectory
  and leaves the directory under its new key and name, so \<^verbatim>\<open>/x/x/y\<close> is a directory with
  the child \<^verbatim>\<open>f.txt\<close>.
\<close>

definition shadow_store :: fs where
  "shadow_store =
     snd (FileSystem_rename_directory
       (snd (FileSystem_create_file
         (snd (FileSystem_create_directory
           (snd (FileSystem_create_directory
             (snd (FileSystem_create_directory empty_store ''/a''))
             ''/a/x''))
           ''/a/x/y''))
         ''/a/x/y/f.txt'' ''Z'' 1))
       ''/a'' ''x'')"

section \<open>Evaluation\<close>

lemmas path_defs = Path_def splitroot_def is_absolute_def path_str_def parent_def path_name_def
  joinpath_def Path_of_parts_def

lemmas file_defs = generate_file_id_def FileNode_init_def FileNode_rename_def FileNode_move_def
  id_ok_def

lemmas dir_defs = DirectoryNode_create_directory_def DirectoryNode_create_file_def
  DirectoryNode_mutate_file_def DirectoryNode_delete_directory_def DirectoryNode_delete_file_def
  rename_directory_helper_def DirectoryNode_rename_directory_def DirectoryNode_rename_file_def
  DirectoryNode_get_file_def

lemmas fs_defs = validate_and_split_path_def traverse_directory_def store_dir_def
  FileSystem_create_directory_def FileSystem_create_file_def open_finish_def FileSystem_open_def
  FileSystem_delete_def FileSystem_mutate_def FileSystem_delete_directory_def
  FileSystem_delete_file_def FileSystem_rename_directory_def FileSystem_rename_file_def
  FileSystem_get_file_node_def FileSystem_get_file_def FileSystem_save_file_def
  FileSystem_init_def empty_store_def

lemma dir1_store_value:
  "dir1_store =
     \<lparr>root = Directory ''/''
        [(''dir1'', DirectoryNode (Directory ''dir1''
           [(''file1.txt'', FileNode
              \<lparr>name = ''file1.txt'', file_path = [''/'', ''dir1'', ''file1.txt''],
               file_id = Sha256 ''file1.txt/dir1/file1.txt'', fsize = 1,
               created_at = 1, modified_at = 1\<rparr>)]))],
      disk = [Sha256 ''file1.txt/dir1/file1.txt'' \<mapsto> ''X'']\<rparr>"
  by (simp add: dir1_store_def path_defs file_defs dir_defs fs_defs Let_def)

section \<open>Relative paths\<close>

lemma validate_relative:
  "\<not> is_absolute (Path p) \<Longrightarrow> validate_and_split_path p = Inl ValueError"
  by (simp add: validate_and_split_path_def)

lemma split_sep_no_sep: "w \<in> set (split_sep s) \<Longrightarrow> CHR ''/'' \<notin> set w"
  by (induction s arbitrary: w) (auto split: if_splits list.splits)

text \<open>A path text is absolute exactly when it starts with a slash.\<close>

lemma is_absolute_Path: "is_absolute (Path p) = (take 1 p = ''/'')"
proof (cases "take 1 p = ''/''")
  case True
  then show ?thesis by (simp add: Path_def splitroot_def is_absolute_def)
next
  case False
  have "\<not> is_absolute (filter (\<lambda>x. x \<noteq> '''' \<and> x \<noteq> ''.'') (split_sep p))"
  proof (cases "filter (\<lambda>x. x \<noteq> '''' \<and> x \<noteq> ''.'') (split_sep p)")
    case Nil
    then show ?thesis by (simp add: is_absolute_def)
  next
    case (Cons r rs)
    then have "r \<in> set (filter (\<lambda>x. x \<noteq> '''' \<and> x \<noteq> ''.'') (split_sep p))"
      by simp
    then have "r \<in> set (split_sep p)"
      by simp
    then have "CHR ''/'' \<notin> set r" by (rule split_sep_no_sep)
    then have "r \<noteq> ''/'' \<and> r \<noteq> ''//''" by auto
    with Cons show ?thesis by (simp add: is_absolute_def)
  qed
  with False show ?thesis by (simp add: Path_def splitroot_def)
qed

text \<open>
  Claim C10. Every method of \<^verbatim>\<open>FileSystem\<close> that takes a path starts with
  \<^verbatim>\<open>_validate_and_split_path\<close>: for a relative path (one for which \<^verbatim>\<open>Path(p).is_absolute()\<close> is
  false, that is, one that does not start with a slash) each of \<^verbatim>\<open>open\<close>, \<^verbatim>\<open>mutate\<close>,
  \<^verbatim>\<open>delete\<close>, \<^verbatim>\<open>create_file\<close>, \<^verbatim>\<open>create_directory\<close>, \<^verbatim>\<open>delete_directory\<close>, \<^verbatim>\<open>delete_file\<close>,
  \<^verbatim>\<open>rename_directory\<close>, \<^verbatim>\<open>rename_file\<close>, \<^verbatim>\<open>get_file_node\<close>, \<^verbatim>\<open>get_file\<close> and \<^verbatim>\<open>save_file\<close>
  raises \<^verbatim>\<open>ValueError\<close> and leaves the tree and the blobs as they were.
\<close>

theorem relative_path_rejected:
  assumes "\<not> is_absolute (Path p)"
  shows "FileSystem_open s p file_node now = (Inl ValueError, s)
       \<and> FileSystem_mutate s p new_file_node now = (Inl ValueError, s)
       \<and> FileSystem_delete s p = (Inl ValueError, s)
       \<and> FileSystem_create_file s p content now = (Inl ValueError, s)
       \<and> FileSystem_create_directory s p = (Inl ValueError, s)
       \<and> FileSystem_delete_directory s p = (Inl ValueError, s)
       \<and> FileSystem_delete_file s p = (Inl ValueError, s)
       \<and> FileSystem_rename_directory s p new_name = (Inl ValueError, s)
       \<and> FileSystem_rename_file s p new_name now = (Inl ValueError, s)
       \<and> FileSystem_get_file_node s p = (Inl ValueError, s)
       \<and> FileSystem_get_file s p = (Inl ValueError, s)
       \<and> FileSystem_save_file s p data io = (Inl ValueError, s)"
  using validate_relative [OF assms]
  by (simp add: FileSystem_create_directory_def FileSystem_create_file_def FileSystem_open_def
      FileSystem_delete_def FileSystem_mutate_def FileSystem_delete_directory_def
      FileSystem_delete_file_def FileSystem_rename_directory_def FileSystem_rename_file_def
      FileSystem_get_file_node_def FileSystem_get_file_def FileSystem_save_file_def)

theorem relative_path_rejected_witness:
  "\<not> is_absolute (Path ''dir1/file1.txt'')
   \<and> FileSystem_open dir1_store ''dir1/file1.txt'' None 2 = (Inl ValueError, dir1_store)
   \<and> FileSystem_delete dir1_store ''dir1/file1.txt'' = (Inl ValueError, dir1_store)
   \<and> FileSystem_get_file dir1_store ''dir1/file1.txt'' = (Inl ValueError, dir1_store)
   \<and> FileSystem_rename_file dir1_store ''dir1/file1.txt'' ''file2.txt'' 2
       = (Inl ValueError, dir1_store)"
proof -
  have rel: "\<not> is_absolute (Path ''dir1/file1.txt'')"
    by (simp add: is_absolute_Path)
  from relative_path_rejected [OF rel] rel show ?thesis
    by blast
qed

section \<open>Parsing and printing paths\<close>

lemma split_sep_plain: "CHR ''/'' \<notin> set c \<Longrightarrow> split_sep c = [c]"
  by (induction c) auto

lemma split_sep_append:
  "CHR ''/'' \<notin> set c \<Longrightarrow> split_sep (c @ CHR ''/'' # rest) = c # split_sep rest"
  by (induction c) auto

lemma split_sep_join:
  "ps \<noteq> [] \<Longrightarrow> list_all (\<lambda>c. CHR ''/'' \<notin> set c) ps \<Longrightarrow> split_sep (join_sep ps) = ps"
proof (induction ps rule: join_sep.induct)
  case 1
  then show ?case by simp
next
  case (2 x)
  then show ?case by (simp add: split_sep_plain)
next
  case (3 x y ys)
  then show ?case by (simp add: split_sep_append)
qed

lemma wf_components_filter:
  "list_all wf_component cs \<Longrightarrow> filter (\<lambda>x. x \<noteq> '''' \<and> x \<noteq> ''.'') cs = cs"
  by (induction cs) (auto simp add: wf_component_def)

lemma wf_components_no_sep:
  "list_all wf_component cs \<Longrightarrow> list_all (\<lambda>c. CHR ''/'' \<notin> set c) cs"
  by (induction cs) (auto simp add: wf_component_def)

lemma components_of_join:
  assumes "list_all wf_component cs"
  shows "filter (\<lambda>x. x \<noteq> '''' \<and> x \<noteq> ''.'') (split_sep (join_sep cs)) = cs"
proof (cases cs)
  case Nil
  then show ?thesis by simp
next
  case (Cons c cs')
  then have "cs \<noteq> []" by simp
  with assms have "split_sep (join_sep cs) = cs"
    by (intro split_sep_join wf_components_no_sep)
  with assms show ?thesis by (simp add: wf_components_filter)
qed

lemma join_sep_head:
  "list_all wf_component cs \<Longrightarrow> take 1 (join_sep cs) \<noteq> ''/''"
proof (induction cs rule: join_sep.induct)
  case 1
  then show ?case by simp
next
  case (2 x)
  then show ?case by (cases x) (auto simp add: wf_component_def)
next
  case (3 x y ys)
  then show ?case by (cases x) (auto simp add: wf_component_def)
qed

text \<open>Every parsed path is well-formed.\<close>

lemma wf_path_Path: "wf_path (Path s)"
proof -
  have comps: "list_all wf_component (filter (\<lambda>x. x \<noteq> '''' \<and> x \<noteq> ''.'') (split_sep t))" for t
    using split_sep_no_sep [of _ t] by (auto simp add: list_all_iff wf_component_def)
  show ?thesis
  proof (cases "fst (splitroot s) = ''''")
    case True
    with comps [of "snd (splitroot s)"] show ?thesis
      by (cases "filter (\<lambda>x. x \<noteq> '''' \<and> x \<noteq> ''.'') (split_sep (snd (splitroot s)))")
        (auto simp add: Path_def wf_path_def split: prod.splits)
  next
    case False
    then have "fst (splitroot s) = ''/'' \<or> fst (splitroot s) = ''//''"
      by (auto simp add: splitroot_def split: if_splits)
    with False comps [of "snd (splitroot s)"] show ?thesis
      by (auto simp add: Path_def wf_path_def split: prod.splits)
  qed
qed

text \<open>
  Parsing the text of a well-formed path gives the path back, so a method that is handed a
  \<^verbatim>\<open>Path\<close> object behaves as when handed its text.
\<close>

lemma Path_path_str:
  assumes "wf_path p"
  shows "Path (path_str p) = p"
proof (cases p)
  case Nil
  then show ?thesis by (simp add: path_defs)
next
  case (Cons r cs)
  with assms have cs: "list_all wf_component cs"
    by (simp add: wf_path_def)
  from Cons assms consider "r = ''/''" | "r = ''//''" | "wf_component r"
    by (auto simp add: wf_path_def)
  then show ?thesis
  proof cases
    case 1
    have "splitroot (''/'' @ join_sep cs) = (''/'', join_sep cs)"
      using join_sep_head [OF cs] by (simp add: splitroot_def)
    with 1 Cons cs show ?thesis
      by (simp add: Path_def path_str_def components_of_join)
  next
    case 2
    have "splitroot (''//'' @ join_sep cs) = (''//'', join_sep cs)"
      using join_sep_head [OF cs] by (simp add: splitroot_def)
    with 2 Cons cs show ?thesis
      by (simp add: Path_def path_str_def components_of_join)
  next
    case 3
    with cs have all: "list_all wf_component (r # cs)" by simp
    from 3 have r: "r \<noteq> ''/''" "r \<noteq> ''//''"
      by (auto simp add: wf_component_def)
    have "splitroot (join_sep (r # cs)) = ('''', join_sep (r # cs))"
      using join_sep_head [OF all] by (simp add: splitroot_def del: join_sep.simps)
    with r Cons show ?thesis
      using components_of_join [OF all]
      by (simp add: Path_def path_str_def del: join_sep.simps)
  qed
qed

text \<open>Joining the parent of a path with its name gives the path back.\<close>

lemma Path_component: "wf_component c \<Longrightarrow> Path c = [c]"
proof -
  assume c: "wf_component c"
  then have "take 1 c \<noteq> ''/''"
    by (cases c) (auto simp add: wf_component_def)
  then have "splitroot c = ('''', c)"
    by (simp add: splitroot_def)
  moreover from c have "split_sep c = [c]"
    by (simp add: split_sep_plain wf_component_def)
  ultimately show ?thesis
    using c by (simp add: Path_def wf_component_def)
qed

lemma component_not_absolute: "wf_component c \<Longrightarrow> \<not> is_absolute [c]"
  by (auto simp add: is_absolute_def wf_component_def)

lemma joinpath_parent_name:
  assumes "wf_path p"
  shows "joinpath (parent p) (path_name p) = p"
proof (cases "p = [] \<or> (length p = 1 \<and> is_absolute p)")
  case True
  then show ?thesis
    by (auto simp add: joinpath_def parent_def path_name_def Path_def splitroot_def
        is_absolute_def)
next
  case False
  then have ne: "p \<noteq> []" and notroot: "\<not> (length p = 1 \<and> is_absolute p)"
    by auto
  from ne have split: "p = butlast p @ [last p]" by simp
  have wf: "wf_component (last p)"
  proof (cases p)
    case Nil
    with ne show ?thesis by simp
  next
    case (Cons r cs)
    show ?thesis
    proof (cases cs)
      case Nil
      with Cons assms notroot show ?thesis
        by (auto simp add: wf_path_def is_absolute_def)
    next
      case (Cons c cs')
      with \<open>p = r # cs\<close> assms have "list_all wf_component cs" and "last p = last cs" and "cs \<noteq> []"
        by (auto simp add: wf_path_def)
      then show ?thesis
        by (auto simp add: list_all_iff)
    qed
  qed
  from notroot ne have "parent p = butlast p" "path_name p = last p"
    by (auto simp add: parent_def path_name_def)
  with wf split show ?thesis
    using Path_component [OF wf] component_not_absolute [OF wf]
    by (simp add: joinpath_def)
qed

section \<open>References into the tree\<close>

lemma get_dir_append:
  "get_dir r (ks @ ks') = (case get_dir r ks of None \<Rightarrow> None | Some d \<Rightarrow> get_dir d ks')"
  by (induction ks arbitrary: r) (auto split: option.splits node.splits)

lemma put_dir_get_dir: "get_dir r ks = Some d \<Longrightarrow> put_dir r ks d = r"
proof (induction ks arbitrary: r)
  case Nil
  then show ?case by simp
next
  case (Cons k ks)
  then obtain c where c: "map_of (children r) k = Some (DirectoryNode c)" "get_dir c ks = Some d"
    by (auto split: option.splits node.splits)
  with Cons.IH have "put_dir c ks d = c" by simp
  with c show ?case by (simp add: update_triv)
qed

lemma traverse_directory_get_dir:
  assumes "traverse_directory (loc, d) part = Inr (loc', d')" and "get_dir r loc = Some d"
  shows "get_dir r loc' = Some d'"
  using assms
  by (auto simp add: traverse_directory_def get_dir_append
      split: if_splits option.splits node.splits)

text \<open>The reference that a traversal returns names the directory that sits at its location.\<close>

lemma traverse_loop_get_dir:
  "traverse_loop (loc, d) ps = Inr (loc', d') \<Longrightarrow> get_dir r loc = Some d
   \<Longrightarrow> get_dir r loc' = Some d'"
proof (induction ps arbitrary: loc d)
  case Nil
  then show ?case by simp
next
  case (Cons part ps)
  then obtain loc1 d1 where step: "traverse_directory (loc, d) part = Inr (loc1, d1)"
    and rest: "traverse_loop (loc1, d1) ps = Inr (loc', d')"
    by (auto split: sum.splits)
  from traverse_directory_get_dir [OF step Cons.prems(2)] have "get_dir r loc1 = Some d1" .
  with Cons.IH rest show ?case by blast
qed

text \<open>Storing back the directory that a traversal from the root reached changes nothing.\<close>

lemma store_dir_traversed:
  "traverse_loop ([], root s) ps = Inr (loc, d) \<Longrightarrow> store_dir s loc d = s"
  using traverse_loop_get_dir [of "[]" "root s" ps loc d "root s"]
  by (simp add: store_dir_def put_dir_get_dir)

section \<open>Deleting a directory that has children\<close>

text \<open>
  When the directory stored under \<open>nm\<close> has at least one child,
  \<^verbatim>\<open>DirectoryNode.delete_directory\<close> with \<^verbatim>\<open>recursive=False\<close> raises \<^verbatim>\<open>EnvironmentError\<close> (the
  code's exception for a directory that is not empty) and the parent is as before.
\<close>

lemma DirectoryNode_delete_directory_not_empty:
  assumes "map_of (children parent_dir) nm = Some (DirectoryNode d)"
      and "children d \<noteq> []"
  shows "DirectoryNode_delete_directory parent_dir nm False = (Inl EnvironmentError, parent_dir)"
  using assms by (simp add: DirectoryNode_delete_directory_def)

text \<open>
  \<^verbatim>\<open>FileSystem.delete_directory\<close> does the same when its own traversal of the path ends in
  that parent, as for \<^verbatim>\<open>/dir1\<close> in the store of the examples.
\<close>

lemma FileSystem_delete_directory_not_empty:
  assumes "validate_and_split_path p = Inr parts"
      and "traverse_loop ([], root s) (butlast (drop 1 parts)) = Inr (loc, parent_dir)"
      and "map_of (children parent_dir) (last parts) = Some (DirectoryNode d)"
      and "children d \<noteq> []"
  shows "FileSystem_delete_directory s p = (Inl EnvironmentError, s)"
proof -
  have len: "\<not> int (length (butlast (drop 1 parts))) < int (length (butlast parts)) - 1"
    by (cases parts) auto
  show ?thesis
    using assms len by (simp add: FileSystem_delete_directory_def)
qed

lemma delete_directory_dir1:
  "FileSystem_delete_directory dir1_store ''/dir1'' = (Inl EnvironmentError, dir1_store)"
  by (simp add: dir1_store_value path_defs dir_defs fs_defs Let_def)

lemma shadow_store_value:
  "shadow_store =
     \<lparr>root = Directory ''/''
        [(''x'', DirectoryNode (Directory ''x''
           [(''x'', DirectoryNode (Directory ''x''
              [(''y'', DirectoryNode (Directory ''y''
                 [(''f.txt'', FileNode
                    \<lparr>name = ''f.txt'', file_path = [''/'', ''a'', ''x'', ''y'', ''f.txt''],
                     file_id = Sha256 ''f.txt/a/x/y/f.txt'', fsize = 1,
                     created_at = 1, modified_at = 1\<rparr>)]))]))]))],
      disk = [Sha256 ''f.txt/a/x/y/f.txt'' \<mapsto> ''Z'']\<rparr>"
  by (simp add: shadow_store_def path_defs file_defs dir_defs fs_defs Let_def)

text \<open>
  Claim C9, where the code departs from it. \<^verbatim>\<open>FileSystem.delete_directory\<close> resolves its path
  with \<^verbatim>\<open>_traverse_directory\<close>, which stays in a directory whose name equals the part, and
  reads the last part with \<^verbatim>\<open>current_dir.children[parts[-1]]\<close>. In the store where \<^verbatim>\<open>/x\<close> holds
  a directory \<^verbatim>\<open>x\<close>, the directory \<^verbatim>\<open>/x/x/y\<close> has the child \<^verbatim>\<open>f.txt\<close>, yet
  \<^verbatim>\<open>delete_directory('/x/x/y')\<close> looks for \<^verbatim>\<open>y\<close> in \<^verbatim>\<open>/x\<close> and raises \<^verbatim>\<open>KeyError\<close>. Once an empty
  \<^verbatim>\<open>/x/y\<close> has been created, the same call returns without an exception and removes that
  empty directory from the tree, while \<^verbatim>\<open>/x/x/y\<close> and its file stay. For the root, which has
  the child \<^verbatim>\<open>dir1\<close> in the store of the examples, \<^verbatim>\<open>delete_directory('/')\<close> raises \<^verbatim>\<open>KeyError\<close>.
\<close>

theorem delete_directory_resolves_other_directory:
  "get_dir (root shadow_store) [''x'', ''x'', ''y'']
     = Some (Directory ''y''
         [(''f.txt'', FileNode
             \<lparr>name = ''f.txt'', file_path = [''/'', ''a'', ''x'', ''y'', ''f.txt''],
              file_id = Sha256 ''f.txt/a/x/y/f.txt'', fsize = 1,
              created_at = 1, modified_at = 1\<rparr>)])
   \<and> FileSystem_delete_directory shadow_store ''/x/x/y'' = (Inl KeyError, shadow_store)
   \<and> get_dir (root (snd (FileSystem_create_directory shadow_store ''/x/y''))) [''x'', ''y'']
       = Some (Directory ''y'' [])
   \<and> FileSystem_delete_directory (snd (FileSystem_create_directory shadow_store ''/x/y''))
        ''/x/x/y''
       = (Inr (), shadow_store)
   \<and> get_dir (root shadow_store) [''x'', ''y''] = None
   \<and> FileSystem_delete_directory dir1_store ''/'' = (Inl KeyError, dir1_store)"
  by (simp add: shadow_store_value dir1_store_value path_defs dir_defs fs_defs Let_def)

section \<open>The id of a file entry\<close>

lemma nested_store_value:
  "nested_store =
     \<lparr>root = Directory ''/''
        [(''dir1'', DirectoryNode (Directory ''dir1''
           [(''file1.txt'', FileNode
              \<lparr>name = ''file1.txt'', file_path = [''/'', ''dir1'', ''file1.txt''],
               file_id = Sha256 ''file1.txt/dir1/file1.txt'', fsize = 1,
               created_at = 1, modified_at = 1\<rparr>),
            (''sub'', DirectoryNode (Directory ''sub''
               [(''file2.txt'', FileNode
                  \<lparr>name = ''file2.txt'', file_path = [''/'', ''dir1'', ''sub'', ''file2.txt''],
                   file_id = Sha256 ''file2.txt/dir1/sub/file2.txt'', fsize = 1,
                   created_at = 2, modified_at = 2\<rparr>)]))]))],
      disk = [Sha256 ''file1.txt/dir1/file1.txt'' \<mapsto> ''X'',
              Sha256 ''file2.txt/dir1/sub/file2.txt'' \<mapsto> ''Y'']\<rparr>"
  by (simp add: nested_store_def dir1_store_value path_defs file_defs dir_defs fs_defs Let_def)

lemma renamed_store_value:
  "renamed_store =
     \<lparr>root = Directory ''/''
        [(''dir1'', DirectoryNode (Directory ''dir1''
           [(''file3.txt'', FileNode
              \<lparr>name = ''file3.txt'', file_path = [''/'', ''dir1'', ''file3.txt''],
               file_id = Sha256 ''file3.txt/dir1/file1.txt'', fsize = 1,
               created_at = 1, modified_at = 2\<rparr>)]))],
      disk = [Sha256 ''file3.txt/dir1/file1.txt'' \<mapsto> ''X'']\<rparr>"
  by (simp add: renamed_store_def dir1_store_value path_defs file_defs dir_defs fs_defs Let_def
      fun_upd_twist)

text \<open>A new entry has the id of its name and path.\<close>

lemma FileNode_init_id_ok: "id_ok (FileNode_init nm p now)"
  by (simp add: file_defs)

lemma DirectoryNode_create_file_id_ok:
  "DirectoryNode_create_file self nm p now = (Inr f, self') \<Longrightarrow> id_ok f"
  by (auto simp add: DirectoryNode_create_file_def FileNode_init_id_ok Let_def split: if_splits)

text \<open>The entry that \<^verbatim>\<open>FileSystem.create_file\<close> returns has the id of its name and path.\<close>

lemma create_file_id_ok:
  assumes "validate_and_split_path p = Inr parts"
      and "FileSystem_create_file s p content now = (Inr f, s')"
  shows "id_ok f \<and> file_id f = Sha256 (last parts @ path_str (Path p))"
  using assms
  by (auto simp add: FileSystem_create_file_def DirectoryNode_create_file_def Let_def file_defs
      split: sum.splits prod.splits if_splits)

text \<open>
  \<^verbatim>\<open>move\<close> stores the new path before it computes the id; \<^verbatim>\<open>rename\<close> computes the id
  before it stores the new path, so the id is the digest of the new name and the old path.
\<close>

lemma FileNode_move_file_id:
  "file_id (FileNode_move f p now) = Sha256 (name f @ path_str p)"
  by (simp add: file_defs Let_def)

lemma FileNode_move_id_ok: "wf_path p \<Longrightarrow> id_ok (FileNode_move f p now)"
  by (simp add: FileNode_move_def Let_def id_ok_def generate_file_id_def joinpath_parent_name)

lemma FileNode_rename_file_id:
  "file_id (FileNode_rename f new_name now) = Sha256 (new_name @ path_str (file_path f))"
  by (simp add: file_defs Let_def)

text \<open>
  Claim C1, where the code departs from it. In the store that holds \<^verbatim>\<open>/dir1/file1.txt\<close> the
  entry's id is the digest of its name and path. After
  \<^verbatim>\<open>rename_file('/dir1/file1.txt', 'file3.txt')\<close> the entry found at \<^verbatim>\<open>/dir1/file3.txt\<close> has the
  new name and the new path, and its id is the digest of \<^verbatim>\<open>file3.txt/dir1/file1.txt\<close>, the new
  name followed by the old path: the invariant no longer holds for it.
\<close>

theorem rename_file_id_has_old_path:
  "fst (FileSystem_get_file_node dir1_store ''/dir1/file1.txt'')
     = Inr \<lparr>name = ''file1.txt'', file_path = [''/'', ''dir1'', ''file1.txt''],
            file_id = Sha256 ''file1.txt/dir1/file1.txt'', fsize = 1,
            created_at = 1, modified_at = 1\<rparr>
   \<and> id_ok \<lparr>name = ''file1.txt'', file_path = [''/'', ''dir1'', ''file1.txt''],
            file_id = Sha256 ''file1.txt/dir1/file1.txt'', fsize = 1,
            created_at = 1, modified_at = 1\<rparr>
   \<and> fst (FileSystem_get_file_node
            (snd (FileSystem_rename_file dir1_store ''/dir1/file1.txt'' ''file3.txt'' 2))
            ''/dir1/file3.txt'')
     = Inr \<lparr>name = ''file3.txt'', file_path = [''/'', ''dir1'', ''file3.txt''],
            file_id = Sha256 ''file3.txt/dir1/file1.txt'', fsize = 1,
            created_at = 1, modified_at = 2\<rparr>
   \<and> \<not> id_ok \<lparr>name = ''file3.txt'', file_path = [''/'', ''dir1'', ''file3.txt''],
            file_id = Sha256 ''file3.txt/dir1/file1.txt'', fsize = 1,
            created_at = 1, modified_at = 2\<rparr>"
  by (simp add: dir1_store_value path_defs file_defs dir_defs fs_defs Let_def)

section \<open>Deleting a directory recursively\<close>

text \<open>
  With \<^verbatim>\<open>recursive=True\<close> and a directory that has children, \<^verbatim>\<open>delete_directory\<close> returns the
  ids that \<^verbatim>\<open>_collect_file_ids\<close> gathers, and the parent is as it was.
\<close>

lemma delete_directory_recursive:
  assumes "map_of (children self) nm = Some (DirectoryNode d)" and "children d \<noteq> []"
  shows "DirectoryNode_delete_directory self nm True = (Inr (collect_file_ids d), self)"
  using assms by (simp add: DirectoryNode_delete_directory_def)

lemma delete_directory_empty:
  assumes "map_of (children self) nm = Some (DirectoryNode d)" and "children d = []"
  shows "DirectoryNode_delete_directory self nm recursive
           = (Inr [], Directory (dname self) (AList.delete nm (children self)))"
  using assms by (simp add: DirectoryNode_delete_directory_def)

text \<open>
  Claim C4, where the code departs from it. In the store with \<^verbatim>\<open>/dir1/file1.txt\<close> and
  \<^verbatim>\<open>/dir1/sub/file2.txt\<close>, \<^verbatim>\<open>delete_directory('dir1', recursive=True)\<close> on the root returns the
  ids of both files and leaves the root as it was: \<^verbatim>\<open>dir1\<close> and everything below it are
  still in the tree.
\<close>

theorem delete_directory_recursive_keeps_subtree:
  "DirectoryNode_delete_directory (root nested_store) ''dir1'' True
     = (Inr [Sha256 ''file1.txt/dir1/file1.txt'', Sha256 ''file2.txt/dir1/sub/file2.txt''],
        root nested_store)
   \<and> fst (FileSystem_get_file_node nested_store ''/dir1/sub/file2.txt'')
       = Inr \<lparr>name = ''file2.txt'', file_path = [''/'', ''dir1'', ''sub'', ''file2.txt''],
              file_id = Sha256 ''file2.txt/dir1/sub/file2.txt'', fsize = 1,
              created_at = 2, modified_at = 2\<rparr>"
  by (simp add: nested_store_value path_defs dir_defs fs_defs)

section \<open>Saving and loading a snapshot\<close>

text \<open>
  Claim C5, where the code departs from it. \<^verbatim>\<open>save\<close> writes size, id and both time stamps of
  every file; \<^verbatim>\<open>load\<close> builds every file with the constructor and reads none of them back.
  After saving the store with \<^verbatim>\<open>/dir1/file1.txt\<close> (size 1, created and modified at time 1)
  and loading the snapshot at time 9, the entry has size 0 and both time stamps are 9. After
  saving the store in which the file was renamed and loading that snapshot, the entry's id is
  the digest of \<^verbatim>\<open>file3.txt/dir1/file3.txt\<close>, not the id that was saved.
\<close>

theorem load_resets_size_times_and_id:
  "root (FileSystem_load dir1_store (FileSystem_save dir1_store) 9)
     = Directory ''/''
        [(''dir1'', DirectoryNode (Directory ''dir1''
           [(''file1.txt'', FileNode
              \<lparr>name = ''file1.txt'', file_path = [''/'', ''dir1'', ''file1.txt''],
               file_id = Sha256 ''file1.txt/dir1/file1.txt'', fsize = 0,
               created_at = 9, modified_at = 9\<rparr>)]))]
   \<and> FileSystem_save renamed_store
       = DirectoryDoc ''/''
          [(''dir1'', DirectoryDoc ''dir1''
             [(''file3.txt'', FileDoc ''file3.txt'' 1 ''/dir1/file3.txt''
                 (Sha256 ''file3.txt/dir1/file1.txt'') 1 2)])]
   \<and> root (FileSystem_load renamed_store (FileSystem_save renamed_store) 9)
     = Directory ''/''
        [(''dir1'', DirectoryNode (Directory ''dir1''
           [(''file3.txt'', FileNode
              \<lparr>name = ''file3.txt'', file_path = [''/'', ''dir1'', ''file3.txt''],
               file_id = Sha256 ''file3.txt/dir1/file3.txt'', fsize = 0,
               created_at = 9, modified_at = 9\<rparr>)]))]"
  by (simp add: dir1_store_value renamed_store_value FileSystem_load_def FileSystem_save_def
      path_defs file_defs)

section \<open>Opening a path\<close>

text \<open>A part that is the name of the current directory does not leave it.\<close>

lemma traverse_directory_same_name:
  "traverse_directory (loc, d) (dname d) = Inr (loc, d)"
  by (simp add: traverse_directory_def)

text \<open>
  While every part names a directory that is there, the loop of \<^verbatim>\<open>open\<close> is the plain
  traversal and creates nothing.
\<close>

lemma open_loop_traversed:
  "traverse_loop current_dir ps = Inr current_dir'
   \<Longrightarrow> open_loop s current_dir t_path ps = (Inr current_dir', s)"
  by (induction ps arbitrary: current_dir t_path) (auto simp add: Let_def split: sum.splits)

text \<open>An entry that is there is returned as it is, and the store is as before.\<close>

lemma open_existing:
  assumes "validate_and_split_path p = Inr parts"
      and "traverse_loop ([], root s) (butlast (drop 1 parts)) = Inr (loc, d)"
      and "map_of (children d) (last parts) = Some entry"
  shows "FileSystem_open s p None now = (Inr entry, s)"
  using assms open_loop_traversed [OF assms(2), of s "[]"]
  by (simp add: FileSystem_open_def open_finish_def)

lemma create_file_new:
  assumes "validate_and_split_path p = Inr parts"
      and "traverse_loop ([], root s) (butlast (drop 1 parts)) = Inr (loc, d)"
      and "map_of (children d) (last parts) = None"
  shows "FileSystem_create_file s p content now
           = (Inr ((FileNode_init (last parts) (Path p) now)\<lparr>fsize := int (length content)\<rparr>),
              (store_dir s loc
                 (Directory (dname d)
                    (AList.update (last parts)
                       (FileNode ((FileNode_init (last parts) (Path p) now)
                                    \<lparr>fsize := int (length content)\<rparr>))
                       (children d))))
               \<lparr>disk := (disk s)(Sha256 (last parts @ path_str (Path p)) \<mapsto> content)\<rparr>)"
  using assms
  by (simp add: FileSystem_create_file_def DirectoryNode_create_file_def Let_def file_defs)

text \<open>A file that is missing from a directory that is there is created with size 0.\<close>

lemma open_missing_file:
  assumes "validate_and_split_path p = Inr parts"
      and "traverse_loop ([], root s) (butlast (drop 1 parts)) = Inr (loc, d)"
      and "map_of (children d) (last parts) = None"
  shows "FileSystem_open s p None now
           = (Inr (FileNode (FileNode_init (last parts) (Path p) now)),
              snd (FileSystem_create_file s p [] now))
         \<and> fsize (FileNode_init (last parts) (Path p) now) = 0"
  using assms open_loop_traversed [OF assms(2), of s "[]"] create_file_new [OF assms, of "[]" now]
  by (simp add: FileSystem_open_def open_finish_def file_defs)

text \<open>The example of the specification: the missing directories are created in turn.\<close>

lemma open_new_deep_file:
  "FileSystem_open empty_store ''/new/deep/file.txt'' None 1
     = (Inr (FileNode \<lparr>name = ''file.txt'', file_path = [''/'', ''new'', ''deep'', ''file.txt''],
               file_id = Sha256 ''file.txt/new/deep/file.txt'', fsize = 0,
               created_at = 1, modified_at = 1\<rparr>),
        \<lparr>root = Directory ''/''
           [(''new'', DirectoryNode (Directory ''new''
              [(''deep'', DirectoryNode (Directory ''deep''
                 [(''file.txt'', FileNode
                    \<lparr>name = ''file.txt'',
                     file_path = [''/'', ''new'', ''deep'', ''file.txt''],
                     file_id = Sha256 ''file.txt/new/deep/file.txt'', fsize = 0,
                     created_at = 1, modified_at = 1\<rparr>)]))]))],
         disk = [Sha256 ''file.txt/new/deep/file.txt'' \<mapsto> '''']\<rparr>)"
  by (simp add: path_defs file_defs dir_defs fs_defs Let_def)

text \<open>
  Claim C6, where the code departs from it. On a new store, \<^verbatim>\<open>open('/x/x/f.txt')\<close> creates
  \<^verbatim>\<open>/x\<close>; for the second part \<^verbatim>\<open>x\<close>, \<^verbatim>\<open>_traverse_directory\<close> finds that the current directory
  is named \<^verbatim>\<open>x\<close> and stays in it, so no directory \<^verbatim>\<open>/x/x\<close> is created and the new file, of
  size 0 and with the path \<^verbatim>\<open>/x/x/f.txt\<close>, is a child of \<^verbatim>\<open>/x\<close>. \<^verbatim>\<open>get_file_node\<close> does not find
  the file under the path it was opened with.
\<close>

theorem open_repeated_part_creates_no_directory:
  "FileSystem_open empty_store ''/x/x/f.txt'' None 1
     = (Inr (FileNode \<lparr>name = ''f.txt'', file_path = [''/'', ''x'', ''x'', ''f.txt''],
               file_id = Sha256 ''f.txt/x/x/f.txt'', fsize = 0,
               created_at = 1, modified_at = 1\<rparr>),
        \<lparr>root = Directory ''/''
           [(''x'', DirectoryNode (Directory ''x''
              [(''f.txt'', FileNode
                 \<lparr>name = ''f.txt'', file_path = [''/'', ''x'', ''x'', ''f.txt''],
                  file_id = Sha256 ''f.txt/x/x/f.txt'', fsize = 0,
                  created_at = 1, modified_at = 1\<rparr>)]))],
         disk = [Sha256 ''f.txt/x/x/f.txt'' \<mapsto> '''']\<rparr>)
   \<and> get_dir (root (snd (FileSystem_open empty_store ''/x/x/f.txt'' None 1))) [''x'', ''x'']
       = None
   \<and> fst (FileSystem_get_file_node (snd (FileSystem_open empty_store ''/x/x/f.txt'' None 1))
            ''/x/x/f.txt'')
       = Inl FileNotFoundError"
  by (simp add: path_defs file_defs dir_defs fs_defs Let_def)

section \<open>Renaming a directory\<close>

text \<open>
  Claim C7, where the code departs from it. Renaming \<^verbatim>\<open>/dir1\<close>, which holds \<^verbatim>\<open>file1.txt\<close> with
  content \<^verbatim>\<open>X\<close>, to \<^verbatim>\<open>dir3\<close> rewrites the file's path to \<^verbatim>\<open>/dir3/file1.txt\<close>; the tree operation
  returns the pair of the old id and the id of the new path, but the entry keeps the old id,
  \<^verbatim>\<open>FileSystem.rename_directory\<close> drops the pair, and the blob stays under the old id. With
  the subdirectory \<^verbatim>\<open>/dir1/sub\<close> the rename raises \<^verbatim>\<open>TypeError\<close> when the loop reaches
  \<^verbatim>\<open>sub\<close>: \<^verbatim>\<open>file1.txt\<close> is rewritten, \<^verbatim>\<open>/dir1/sub/file2.txt\<close> keeps its path, and no pair is
  returned.
\<close>

theorem rename_directory_keeps_ids_and_blobs:
  "DirectoryNode_rename_directory (root dir1_store) ''dir1'' ''dir3''
     = (Inr [(Sha256 ''file1.txt/dir1/file1.txt'', Sha256 ''file1.txt/dir3/file1.txt'')],
        Directory ''/''
          [(''dir3'', DirectoryNode (Directory ''dir3''
             [(''file1.txt'', FileNode
                \<lparr>name = ''file1.txt'', file_path = [''/'', ''dir3'', ''file1.txt''],
                 file_id = Sha256 ''file1.txt/dir1/file1.txt'', fsize = 1,
                 created_at = 1, modified_at = 1\<rparr>)]))])
   \<and> FileSystem_rename_directory dir1_store ''/dir1'' ''dir3''
     = (Inr (),
        \<lparr>root = Directory ''/''
           [(''dir3'', DirectoryNode (Directory ''dir3''
              [(''file1.txt'', FileNode
                 \<lparr>name = ''file1.txt'', file_path = [''/'', ''dir3'', ''file1.txt''],
                  file_id = Sha256 ''file1.txt/dir1/file1.txt'', fsize = 1,
                  created_at = 1, modified_at = 1\<rparr>)]))],
         disk = [Sha256 ''file1.txt/dir1/file1.txt'' \<mapsto> ''X'']\<rparr>)
   \<and> FileSystem_rename_directory nested_store ''/dir1'' ''dir3''
     = (Inl TypeError,
        \<lparr>root = Directory ''/''
           [(''dir3'', DirectoryNode (Directory ''dir3''
              [(''file1.txt'', FileNode
                 \<lparr>name = ''file1.txt'', file_path = [''/'', ''dir3'', ''file1.txt''],
                  file_id = Sha256 ''file1.txt/dir1/file1.txt'', fsize = 1,
                  created_at = 1, modified_at = 1\<rparr>),
               (''sub'', DirectoryNode (Directory ''sub''
                  [(''file2.txt'', FileNode
                     \<lparr>name = ''file2.txt'',
                      file_path = [''/'', ''dir1'', ''sub'', ''file2.txt''],
                      file_id = Sha256 ''file2.txt/dir1/sub/file2.txt'', fsize = 1,
                      created_at = 2, modified_at = 2\<rparr>)]))]))],
         disk = [Sha256 ''file1.txt/dir1/file1.txt'' \<mapsto> ''X'',
                 Sha256 ''file2.txt/dir1/sub/file2.txt'' \<mapsto> ''Y'']\<rparr>)"
  by (simp add: dir1_store_value nested_store_value path_defs file_defs dir_defs fs_defs Let_def)

section \<open>Replacing an entry\<close>

text \<open>
  \<^verbatim>\<open>mutate_file\<close> raises \<^verbatim>\<open>FileNotFoundError\<close> for a name that is not a key of the children;
  for a non-empty name that is a key it stores the new entry, stamped with the time of the
  call, whatever was stored there.
\<close>

lemma mutate_file_absent:
  "map_of (children self) nm = None
   \<Longrightarrow> DirectoryNode_mutate_file self nm file_node now = (Inl FileNotFoundError, self)"
  by (simp add: DirectoryNode_mutate_file_def split: option.splits)

lemma mutate_file_present:
  assumes "map_of (children self) nm = Some child" and "nm \<noteq> []"
  shows "DirectoryNode_mutate_file self nm (Some f) now
           = (Inr (f\<lparr>modified_at := now\<rparr>),
              Directory (dname self)
                (AList.update nm (FileNode (f\<lparr>modified_at := now\<rparr>)) (children self)))"
  using assms by (simp add: DirectoryNode_mutate_file_def Let_def)

text \<open>
  Claim C8, where the code departs from it. In the root of the store with \<^verbatim>\<open>/dir1/file1.txt\<close>
  the child \<^verbatim>\<open>dir1\<close> is a directory, not a file. \<^verbatim>\<open>mutate_file('dir1', entry)\<close> at time 3 does
  not raise: it returns the entry, modified at 3, and the root now holds that file entry
  under \<^verbatim>\<open>dir1\<close> in place of the directory and its file. \<^verbatim>\<open>FileSystem.open('/dir1', entry)\<close>
  reaches \<^verbatim>\<open>mutate_file\<close> this way and replaces the directory, whereas
  \<^verbatim>\<open>FileSystem.mutate('/dir1', entry)\<close>, which checks for a file itself, raises
  \<^verbatim>\<open>FileNotFoundError\<close> and changes nothing.
\<close>

theorem mutate_file_replaces_directory:
  "map_of (children (root dir1_store)) ''dir1''
     = Some (DirectoryNode (Directory ''dir1''
         [(''file1.txt'', FileNode
             \<lparr>name = ''file1.txt'', file_path = [''/'', ''dir1'', ''file1.txt''],
              file_id = Sha256 ''file1.txt/dir1/file1.txt'', fsize = 1,
              created_at = 1, modified_at = 1\<rparr>)]))
   \<and> DirectoryNode_mutate_file (root dir1_store) ''dir1''
        (Some (FileNode_init ''dir1'' [''/'', ''dir1''] 2)) 3
     = (Inr \<lparr>name = ''dir1'', file_path = [''/'', ''dir1''],
             file_id = Sha256 ''dir1/dir1'', fsize = 0, created_at = 2, modified_at = 3\<rparr>,
        Directory ''/''
          [(''dir1'', FileNode \<lparr>name = ''dir1'', file_path = [''/'', ''dir1''],
             file_id = Sha256 ''dir1/dir1'', fsize = 0, created_at = 2, modified_at = 3\<rparr>)])
   \<and> FileSystem_open dir1_store ''/dir1'' (Some (FileNode_init ''dir1'' [''/'', ''dir1''] 2)) 3
     = (Inr (FileNode \<lparr>name = ''dir1'', file_path = [''/'', ''dir1''],
               file_id = Sha256 ''dir1/dir1'', fsize = 0, created_at = 2, modified_at = 3\<rparr>),
        dir1_store\<lparr>root := Directory ''/''
          [(''dir1'', FileNode \<lparr>name = ''dir1'', file_path = [''/'', ''dir1''],
             file_id = Sha256 ''dir1/dir1'', fsize = 0, created_at = 2, modified_at = 3\<rparr>)]\<rparr>)
   \<and> FileSystem_mutate dir1_store ''/dir1'' (FileNode_init ''dir1'' [''/'', ''dir1''] 2) 3
     = (Inl FileNotFoundError, dir1_store)"
  by (simp add: dir1_store_value path_defs file_defs dir_defs fs_defs Let_def)

section \<open>The commit on close\<close>

lemma save_file_result:
  "FileSystem_save_file s p data io = (Inr n, s1) \<Longrightarrow> n = int (length data)"
  by (auto simp add: FileSystem_save_file_def split: sum.splits blob_write.splits)

text \<open>\<^verbatim>\<open>save_file\<close> never changes the tree and \<^verbatim>\<open>mutate\<close> never changes a blob.\<close>

lemma save_file_root:
  "root (snd (FileSystem_save_file s p data io)) = root s"
  by (auto simp add: FileSystem_save_file_def split: sum.splits blob_write.splits)

lemma mutate_disk:
  "disk (snd (FileSystem_mutate s p node now)) = disk s"
  by (auto simp add: FileSystem_mutate_def store_dir_def
      split: sum.splits prod.splits option.splits node.splits)

text \<open>
  Each of the two server branches is one call of the store: the \<^verbatim>\<open>write\<close> branch leaves the
  store that \<^verbatim>\<open>save_file\<close> leaves, the \<^verbatim>\<open>close\<close> branch the store that \<^verbatim>\<open>mutate\<close> leaves.
\<close>

lemma handle_nfs_write_store:
  "snd (handle_nfs_write s node data io)
     = snd (FileSystem_save_file s (path_str (file_path node)) data io)"
  by (auto simp add: handle_nfs_write_def split: prod.splits sum.splits)

lemma handle_nfs_close_store:
  "snd (handle_nfs_close s node now)
     = snd (FileSystem_mutate s (path_str (file_path node)) node now)"
  by (auto simp add: handle_nfs_close_def split: prod.splits sum.splits)

text \<open>
  Claim C2 as the specification states it, refuted. The client of the example closes its
  session on the store with \<^verbatim>\<open>/dir1/file1.txt\<close>, and the host writes the blob. The client
  sends the write request first and the close request second. The server's step for the
  first request is \<^verbatim>\<open>save_file\<close>: after it the blob holds the new bytes \<^verbatim>\<open>XY\<close> and the tree is
  as before, whereas \<^verbatim>\<open>mutate\<close> on that store changes the tree. So the first step of the
  commit is \<^verbatim>\<open>saveFile\<close>, not \<^verbatim>\<open>mutate\<close>.
\<close>

theorem close_first_step_is_save_file:
  "fst (snd (handle_close editing_client dir1_store 3 Written))
     = [WriteRequest edited_node ''XY'', CloseRequest edited_node]
   \<and> snd (handle_nfs_write dir1_store edited_node ''XY'' Written)
       = snd (FileSystem_save_file dir1_store ''/dir1/file1.txt'' ''XY'' Written)
   \<and> root (snd (handle_nfs_write dir1_store edited_node ''XY'' Written)) = root dir1_store
   \<and> disk (snd (handle_nfs_write dir1_store edited_node ''XY'' Written)) (file_id edited_node)
       = Some ''XY''
   \<and> root (snd (FileSystem_mutate dir1_store ''/dir1/file1.txt'' edited_node 3))
       \<noteq> root dir1_store"
  by (simp add: handle_close_def unlock_def has_file_open_def handle_nfs_write_def
      handle_nfs_close_def editing_client_def edited_node_def dir1_store_value
      path_defs dir_defs fs_defs Let_def)

text \<open>
  Claim C2 as amended: on close of a session the commit is \<^verbatim>\<open>saveFile(path, buffer)\<close> followed
  by \<^verbatim>\<open>mutate(path, metadata)\<close>, in that order, as two independent steps of the server that
  are not one transaction. A client that has a file open, holds its lock and has a scratch
  file closes the session against a store \<open>s\<close>, whatever the host does with the write \<open>io\<close>.
  The write request with the buffer goes out first, and the server answers it with
  \<^verbatim>\<open>save_file\<close>; the close request with the entry goes out second, and the server answers it
  with \<^verbatim>\<open>mutate\<close> on the store that \<^verbatim>\<open>save_file\<close> left. The store afterwards is the one that
  \<^verbatim>\<open>mutate\<close> leaves, and its blobs are those that \<^verbatim>\<open>save_file\<close> left, whether \<^verbatim>\<open>mutate\<close> raised
  or not. When \<^verbatim>\<open>save_file\<close> raises, the commit ends after the first step with the store
  that \<^verbatim>\<open>save_file\<close> left, which may hold a truncated blob. When the scratch file has not the
  size that the entry records, the client's assertion fails before any request and no step
  is taken.
\<close>

theorem close_saves_then_mutates:
  assumes "current_file_node c = Some node" and "current_zk_lock c = Some lock_path"
      and "temp_file c = Some data"
  shows "(if fsize node = int (length data) then
            (case FileSystem_save_file s (path_str (file_path node)) data io of
               (Inl e, s1) \<Rightarrow>
                 fst (snd (handle_close c s now io)) = [WriteRequest node data]
                 \<and> snd (snd (snd (handle_close c s now io))) = s1
             | (Inr n, s1) \<Rightarrow>
                 fst (snd (handle_close c s now io))
                   = [WriteRequest node data, CloseRequest node]
                 \<and> snd (snd (snd (handle_close c s now io)))
                     = snd (FileSystem_mutate s1 (path_str (file_path node)) node now)
                 \<and> disk (snd (snd (snd (handle_close c s now io)))) = disk s1)
          else fst (snd (handle_close c s now io)) = []
               \<and> snd (snd (snd (handle_close c s now io))) = s)"
proof (cases "fsize node = int (length data)")
  case False
  with assms show ?thesis
    by (simp add: handle_close_def unlock_def has_file_open_def)
next
  case size: True
  show ?thesis
  proof (cases "FileSystem_save_file s (path_str (file_path node)) data io")
    case (Pair r s1)
    show ?thesis
    proof (cases r)
      case (Inl e)
      with Pair size assms show ?thesis
        by (simp add: handle_close_def unlock_def has_file_open_def handle_nfs_write_def)
    next
      case (Inr n)
      with Pair have n: "n = int (length data)" by (simp add: save_file_result)
      from Pair Inr n size assms mutate_disk [of s1 "path_str (file_path node)" node now]
      show ?thesis
        by (auto simp add: handle_close_def unlock_def has_file_open_def handle_nfs_write_def
            handle_nfs_close_def split: prod.splits sum.splits)
    qed
  qed
qed

theorem close_saves_then_mutates_witness:
  "current_file_node editing_client = Some edited_node
   \<and> current_zk_lock editing_client = Some ''/dir1/file1.txt''
   \<and> temp_file editing_client = Some ''XY''
   \<and> fsize edited_node = int (length ''XY'')
   \<and> FileSystem_save_file dir1_store ''/dir1/file1.txt'' ''XY'' Written
       = (Inr 2, dir1_store\<lparr>disk := [Sha256 ''file1.txt/dir1/file1.txt'' \<mapsto> ''XY'']\<rparr>)
   \<and> fst (snd (handle_close editing_client dir1_store 3 Written))
       = [WriteRequest edited_node ''XY'', CloseRequest edited_node]
   \<and> snd (snd (snd (handle_close editing_client dir1_store 3 Written)))
       = snd (FileSystem_mutate
                (dir1_store\<lparr>disk := [Sha256 ''file1.txt/dir1/file1.txt'' \<mapsto> ''XY'']\<rparr>)
                ''/dir1/file1.txt'' edited_node 3)
   \<and> disk (snd (snd (snd (handle_close editing_client dir1_store 3 Written))))
       = [Sha256 ''file1.txt/dir1/file1.txt'' \<mapsto> ''XY'']"
proof -
  have node: "current_file_node editing_client = Some edited_node"
    and lock: "current_zk_lock editing_client = Some ''/dir1/file1.txt''"
    and temp: "temp_file editing_client = Some ''XY''"
    and size: "fsize edited_node = int (length ''XY'')"
    by (simp_all add: editing_client_def edited_node_def)
  have p: "path_str (file_path edited_node) = ''/dir1/file1.txt''"
    by (simp add: edited_node_def path_str_def)
  have save: "FileSystem_save_file dir1_store ''/dir1/file1.txt'' ''XY'' Written
       = (Inr 2, dir1_store\<lparr>disk := [Sha256 ''file1.txt/dir1/file1.txt'' \<mapsto> ''XY'']\<rparr>)"
    by (simp add: dir1_store_value path_defs dir_defs fs_defs)
  from close_saves_then_mutates
    [OF node lock temp, where s = dir1_store and io = Written and now = 3]
    p save node lock temp size
  show ?thesis
    by (simp add: mutate_disk)
qed

text \<open>
  Nothing undoes the first step. When the write fails after the blob was truncated, the
  same close sends the write request only: the blob is empty, the entry in the tree still
  records size 1, and the client has given up its lock.
\<close>

lemma close_with_failed_write:
  "handle_close editing_client dir1_store 3 (WriteFailed 0)
     = (Inr (), [WriteRequest edited_node ''XY''],
        \<lparr>current_file_node = None, current_zk_lock = None, temp_file = Some ''XY''\<rparr>,
        dir1_store\<lparr>disk := [Sha256 ''file1.txt/dir1/file1.txt'' \<mapsto> '''']\<rparr>)"
  by (simp add: handle_close_def unlock_def has_file_open_def handle_nfs_write_def
      editing_client_def edited_node_def dir1_store_value path_defs dir_defs fs_defs Let_def)

end
